theory Spec2Isabelle
  imports Main
begin

section \<open>Data model of the bid crawler\<close>

text \<open>
  \<^verbatim>\<open>bid_crawler/models/bid_notice.py\<close>: the two enums as datatypes, the pydantic
  models as records. \<^verbatim>\<open>BidNoticeDetail\<close> inherits from \<^verbatim>\<open>BidNotice\<close>, so it is a
  record extension. A \<^verbatim>\<open>datetime\<close> is carried as the text \<^verbatim>\<open>isoformat()\<close> gives for it.
  A \<^verbatim>\<open>decimal.Decimal\<close> is a finite decimal number: sign, coefficient and exponent.
\<close>

datatype BidType = GOODS | SERVICE | CONSTRUCTION | FOREIGN | OTHER

datatype BidStatus = OPEN | CLOSED | CANCELLED | POSTPONED | REBID | UNKNOWN

type_synonym datetime = string

record Decimal =
  negative :: bool
  coefficient :: nat
  exponent :: int

record BidNotice =
  bid_notice_id :: string
  title :: string
  bid_type :: BidType
  status :: BidStatus
  organization :: "string option"
  demand_organization :: "string option"
  announce_date :: "datetime option"
  deadline :: "datetime option"
  estimated_price :: "Decimal option"
  base_price :: "Decimal option"
  detail_url :: "string option"
  crawled_at :: datetime

record BidNoticeDetail = BidNotice +
  bid_method :: "string option"
  contract_method :: "string option"
  qualification :: "string option"
  region :: "string option"
  delivery_location :: "string option"
  contact_department :: "string option"
  contact_person :: "string option"
  contact_phone :: "string option"
  contact_email :: "string option"
  attachments :: "string list"
  registration_no :: "string option"
  reference_no :: "string option"
  raw_html :: "string option"
  detail_crawled_at :: "datetime option"
  crawl_success :: bool
  crawl_error :: "string option"

text \<open>
  \<^verbatim>\<open>bid_crawler/exceptions.py\<close> and \<^verbatim>\<open>utils/retry.py\<close>: the exceptions the modelled
  code raises or catches. \<^verbatim>\<open>InvalidBidDataException\<close> keeps its \<^verbatim>\<open>field_name\<close>,
  \<^verbatim>\<open>DuplicateBidException\<close> its \<^verbatim>\<open>bid_id\<close>, \<^verbatim>\<open>RetryError\<close> its \<^verbatim>\<open>attempts\<close>
  and \<^verbatim>\<open>last_exception\<close>; the message texts are left out. \<^verbatim>\<open>ValidationError\<close> is pydantic's,
  \<^verbatim>\<open>ValueError\<close> and \<^verbatim>\<open>RecursionError\<close> are the interpreter's. \<^verbatim>\<open>OtherException\<close> stands for any other
  subclass of \<^verbatim>\<open>Exception\<close> (a scraper or I/O failure), named by its text.
\<close>

datatype error =
    InvalidBidDataException string
  | DuplicateBidException string
  | RepositoryException
  | RetryError int "error option"
  | ValidationError
  | ValueError string
  | RecursionError
  | OtherException string

section \<open>Status transitions (\<^verbatim>\<open>BidNotice.transition_to\<close>)\<close>

text \<open>
  The dictionary \<^verbatim>\<open>valid_transitions\<close> of the method, with \<^verbatim>\<open>dict.get(status, [])\<close>
  written out: a status that is no key gives the empty list.
\<close>

fun valid_transitions :: "BidStatus \<Rightarrow> BidStatus list option" where
  "valid_transitions OPEN = Some [CLOSED, CANCELLED, POSTPONED]"
| "valid_transitions POSTPONED = Some [OPEN, CANCELLED, REBID]"
| "valid_transitions REBID = Some [OPEN]"
| "valid_transitions _ = None"

definition transition_to ::
  "'a BidNotice_scheme \<Rightarrow> BidStatus \<Rightarrow> error + 'a BidNotice_scheme" where
  "transition_to self new_status =
     (let allowed = (case valid_transitions (status self) of None \<Rightarrow> [] | Some l \<Rightarrow> l)
      in if new_status \<notin> set allowed
         then Inl (InvalidBidDataException ''status'')
         else Inr (self\<lparr>status := new_status\<rparr>))"

text \<open>The table as the specification words it, as a set of pairs.\<close>

definition spec_transition_table :: "(BidStatus \<times> BidStatus) set" where
  "spec_transition_table =
     {(OPEN, CLOSED), (OPEN, CANCELLED), (OPEN, POSTPONED),
      (POSTPONED, OPEN), (POSTPONED, CANCELLED), (POSTPONED, REBID),
      (REBID, OPEN)}"

text \<open>A concrete notice, for evaluating the definitions.\<close>

definition sample_notice :: BidNotice where
  "sample_notice =
     \<lparr>bid_notice_id = ''20240115-001'', title = ''Server purchase'',
      bid_type = GOODS, status = OPEN,
      organization = Some ''PPS'', demand_organization = None,
      announce_date = Some ''2024-01-15T09:00:00'', deadline = Some ''2024-01-31T18:00:00'',
      estimated_price = Some \<lparr>negative = False, coefficient = 100000000, exponent = 0\<rparr>,
      base_price = None, detail_url = Some ''/detail?id=20240115-001'',
      crawled_at = ''2024-01-15T10:00:00''\<rparr>"

section \<open>Crawl state (\<^verbatim>\<open>bid_crawler/models/crawl_state.py\<close>)\<close>

text \<open>
  The three pydantic models with their defaults. The two filter fields of
  \<^verbatim>\<open>CrawlProgress\<close> are \<^verbatim>\<open>keyword\<close> and \<^verbatim>\<open>bid_type\<close> in the source; the second
  name is taken by \<^verbatim>\<open>BidNotice\<close>, so both carry the prefix \<open>filter_\<close> here.
  An entry of \<^verbatim>\<open>failed_items\<close> is the dictionary with the keys \<^verbatim>\<open>info\<close>, \<^verbatim>\<open>error\<close>
  and \<^verbatim>\<open>timestamp\<close>; \<^verbatim>\<open>info\<close> is a dictionary of texts here.
\<close>

record CrawlProgress =
  current_page :: int
  current_index :: int
  total_pages :: "int option"
  last_completed_page :: int
  filter_keyword :: "string option"
  filter_bid_type :: "string option"

record CrawlStatistics =
  total_collected :: int
  list_collected :: int
  detail_collected :: int
  errors :: int
  retries :: int
  skipped_duplicates :: int

record failed_item =
  info :: "(string \<times> string) list"
  error_text :: string
  timestamp :: datetime

record CrawlState =
  run_id :: string
  started_at :: datetime
  last_updated_at :: datetime
  is_running :: bool
  is_completed :: bool
  last_error :: "string option"
  progress :: CrawlProgress
  statistics :: CrawlStatistics
  collected_ids :: "string set"
  failed_items :: "failed_item list"

definition new_CrawlProgress :: CrawlProgress where
  "new_CrawlProgress =
     \<lparr>current_page = 1, current_index = 0, total_pages = None, last_completed_page = 0,
      filter_keyword = None, filter_bid_type = None\<rparr>"

definition new_CrawlStatistics :: CrawlStatistics where
  "new_CrawlStatistics =
     \<lparr>total_collected = 0, list_collected = 0, detail_collected = 0,
      errors = 0, retries = 0, skipped_duplicates = 0\<rparr>"

text \<open>
  \<^verbatim>\<open>CrawlState(run_id=..., is_running=...)\<close>: every other field takes its default;
  \<open>now\<close> is what \<^verbatim>\<open>datetime.now()\<close> returns at the call.
\<close>

definition new_CrawlState :: "string \<Rightarrow> bool \<Rightarrow> datetime \<Rightarrow> CrawlState" where
  "new_CrawlState rid running now =
     \<lparr>run_id = rid, started_at = now, last_updated_at = now,
      is_running = running, is_completed = False, last_error = None,
      progress = new_CrawlProgress, statistics = new_CrawlStatistics,
      collected_ids = {}, failed_items = []\<rparr>"

text \<open>
  The methods mutate \<^verbatim>\<open>self\<close>; here each returns the updated state, and
  \<^verbatim>\<open>mark_collected\<close> its boolean beside it.
\<close>

definition mark_collected :: "datetime \<Rightarrow> string \<Rightarrow> CrawlState \<Rightarrow> bool \<times> CrawlState" where
  "mark_collected now bid_id self =
     (if bid_id \<in> collected_ids self
      then (False, self\<lparr>statistics := (statistics self)
                \<lparr>skipped_duplicates := skipped_duplicates (statistics self) + 1\<rparr>\<rparr>)
      else (True, self\<lparr>collected_ids := insert bid_id (collected_ids self),
                statistics := (statistics self)
                  \<lparr>total_collected := total_collected (statistics self) + 1\<rparr>,
                last_updated_at := now\<rparr>))"


text \<open>\<^verbatim>\<open>if item_info:\<close> holds for a dictionary that is neither \<^verbatim>\<open>None\<close> nor empty.\<close>

definition record_error ::
  "datetime \<Rightarrow> string \<Rightarrow> (string \<times> string) list option \<Rightarrow> CrawlState \<Rightarrow> CrawlState" where
  "record_error now err item_info self =
     (let self1 = self\<lparr>statistics := (statistics self)\<lparr>errors := errors (statistics self) + 1\<rparr>,
                       last_error := Some err, last_updated_at := now\<rparr>
      in case item_info of
           None \<Rightarrow> self1
         | Some d \<Rightarrow>
             if d = [] then self1
             else self1\<lparr>failed_items := failed_items self1 @
                          [\<lparr>info = d, error_text = err, timestamp = now\<rparr>]\<rparr>)"

definition record_retry :: "datetime \<Rightarrow> CrawlState \<Rightarrow> CrawlState" where
  "record_retry now self =
     self\<lparr>statistics := (statistics self)\<lparr>retries := retries (statistics self) + 1\<rparr>,
          last_updated_at := now\<rparr>"

definition update_progress ::
  "datetime \<Rightarrow> int option \<Rightarrow> int option \<Rightarrow> int option \<Rightarrow> CrawlState \<Rightarrow> CrawlState" where
  "update_progress now page idx tp self =
     (let p1 = (case page of None \<Rightarrow> progress self
                | Some n \<Rightarrow> (progress self)\<lparr>current_page := n\<rparr>);
          p2 = (case idx of None \<Rightarrow> p1 | Some i \<Rightarrow> p1\<lparr>current_index := i\<rparr>);
          p3 = (case tp of None \<Rightarrow> p2 | Some t \<Rightarrow> p2\<lparr>total_pages := Some t\<rparr>)
      in self\<lparr>progress := p3, last_updated_at := now\<rparr>)"

definition complete_page :: "datetime \<Rightarrow> int \<Rightarrow> CrawlState \<Rightarrow> CrawlState" where
  "complete_page now page self =
     self\<lparr>progress := (progress self)\<lparr>last_completed_page := page, current_index := 0\<rparr>,
          last_updated_at := now\<rparr>"

definition mark_completed :: "datetime \<Rightarrow> CrawlState \<Rightarrow> CrawlState" where
  "mark_completed now self = self\<lparr>is_completed := True, is_running := False, last_updated_at := now\<rparr>"

text \<open>
  A call of one of the six mutating methods, with the clock reading at the call, and
  the run of a sequence of calls from a state.
\<close>

datatype crawl_op =
    MarkCollected string
  | RecordError string "(string \<times> string) list option"
  | RecordRetry
  | UpdateProgress "int option" "int option" "int option"
  | CompletePage int
  | MarkCompleted

fun apply_crawl_op :: "datetime \<times> crawl_op \<Rightarrow> CrawlState \<Rightarrow> CrawlState" where
  "apply_crawl_op (now, MarkCollected i) s = snd (mark_collected now i s)"
| "apply_crawl_op (now, RecordError e d) s = record_error now e d s"
| "apply_crawl_op (now, RecordRetry) s = record_retry now s"
| "apply_crawl_op (now, UpdateProgress p i t) s = update_progress now p i t s"
| "apply_crawl_op (now, CompletePage p) s = complete_page now p s"
| "apply_crawl_op (now, MarkCompleted) s = mark_completed now s"

fun run_crawl_ops :: "(datetime \<times> crawl_op) list \<Rightarrow> CrawlState \<Rightarrow> CrawlState" where
  "run_crawl_ops [] s = s"
| "run_crawl_ops (c # cs) s = run_crawl_ops cs (apply_crawl_op c s)"

text \<open>The invariant that ties the counter to the id set.\<close>

definition count_inv :: "CrawlState \<Rightarrow> bool" where
  "count_inv s \<longleftrightarrow>
     finite (collected_ids s) \<and> total_collected (statistics s) = int (card (collected_ids s))"

section \<open>Retry (\<^verbatim>\<open>bid_crawler/utils/retry.py\<close>)\<close>






section \<open>Decimal texts (\<^verbatim>\<open>str(Decimal)\<close> and \<^verbatim>\<open>Decimal(str)\<close>)\<close>

text \<open>
  The two functions of Python's \<^verbatim>\<open>decimal\<close> module that the models and the storage
  call, for finite numbers. \<open>Decimal_str\<close> is \<^verbatim>\<open>Decimal.__str__\<close> (scientific notation
  when the exponent is positive or the number has more than six leading zeros).
  \<open>Decimal_of_str\<close> is the constructor on a text: surrounding white space and
  underscores are dropped, then a sign, digits with an optional fraction and an optional
  exponent are read; \<open>Special\<close> is the result for an infinity or a NaN, \<open>Invalid\<close>
  stands for \<^verbatim>\<open>decimal.InvalidOperation\<close>.
\<close>

definition digit_chars :: string where
  "digit_chars = ''0123456789''"

definition is_digit :: "char \<Rightarrow> bool" where
  "is_digit c \<longleftrightarrow> c \<in> set digit_chars"

definition digit_val :: "char \<Rightarrow> nat" where
  "digit_val c = length (takeWhile (\<lambda>d. d \<noteq> c) digit_chars)"

function nat_str :: "nat \<Rightarrow> string" where
  "nat_str n =
     (if n < 10 then [digit_chars ! n] else nat_str (n div 10) @ [digit_chars ! (n mod 10)])"
  by pat_completeness auto
termination
  by (relation "measure id") auto

definition int_of_str :: "string \<Rightarrow> nat" where
  "int_of_str ds = foldl (\<lambda>a c. 10 * a + digit_val c) 0 ds"

definition Decimal_str :: "Decimal \<Rightarrow> string" where
  "Decimal_str d =
     (let sign = (if negative d then ''-'' else []);
          ds = nat_str (coefficient d);
          leftdigits = exponent d + int (length ds);
          dotplace = (if exponent d \<le> 0 \<and> leftdigits > -6 then leftdigits else 1);
          intpart = (if dotplace \<le> 0 then ''0''
                     else if dotplace \<ge> int (length ds)
                       then ds @ replicate (nat (dotplace - int (length ds))) CHR ''0''
                       else take (nat dotplace) ds);
          fracpart = (if dotplace \<le> 0 then ''.'' @ replicate (nat (- dotplace)) CHR ''0'' @ ds
                      else if dotplace \<ge> int (length ds) then []
                      else ''.'' @ drop (nat dotplace) ds);
          e = leftdigits - dotplace;
          exp = (if leftdigits = dotplace then []
                 else ''E'' @ (if e < 0 then ''-'' else ''+'') @ nat_str (nat \<bar>e\<bar>))
      in sign @ intpart @ fracpart @ exp)"

definition is_space :: "char \<Rightarrow> bool" where
  "is_space c \<longleftrightarrow>
     c \<in> set [CHR '' '', CHR 0x09, CHR 0x0A, CHR 0x0B, CHR 0x0C, CHR 0x0D,
              CHR 0x1C, CHR 0x1D, CHR 0x1E, CHR 0x1F]"

definition strip :: "string \<Rightarrow> string" where
  "strip s = rev (dropWhile is_space (rev (dropWhile is_space s)))"

definition lower :: "char \<Rightarrow> char" where
  "lower c =
     (case map_of (zip ''ABCDEFGHIJKLMNOPQRSTUVWXYZ'' ''abcdefghijklmnopqrstuvwxyz'') c of
        None \<Rightarrow> c | Some l \<Rightarrow> l)"

datatype Decimal_parse = Parsed Decimal | Special | Invalid

definition parse_exponent :: "string \<Rightarrow> int option" where
  "parse_exponent r =
     (if r = [] then Some 0
      else if lower (hd r) = CHR ''e'' then
        (let t = tl r;
             neg = (t \<noteq> [] \<and> hd t = CHR ''-'');
             ds = (if t \<noteq> [] \<and> (hd t = CHR ''-'' \<or> hd t = CHR ''+'') then tl t else t)
         in if ds \<noteq> [] \<and> list_all is_digit ds
            then Some (if neg then - int (int_of_str ds) else int (int_of_str ds))
            else None)
      else None)"

definition is_special :: "string \<Rightarrow> bool" where
  "is_special r =
     (let t = map lower r
      in t = ''inf'' \<or> t = ''infinity''
         \<or> (take 3 t = ''nan'' \<and> list_all is_digit (drop 3 t))
         \<or> (take 4 t = ''snan'' \<and> list_all is_digit (drop 4 t)))"

definition Decimal_of_str :: "string \<Rightarrow> Decimal_parse" where
  "Decimal_of_str s =
     (let v = filter (\<lambda>c. c \<noteq> CHR ''_'') (strip s);
          signed = (v \<noteq> [] \<and> (hd v = CHR ''-'' \<or> hd v = CHR ''+''));
          neg = (v \<noteq> [] \<and> hd v = CHR ''-'');
          r = (if signed then tl v else v);
          intpart = takeWhile is_digit r;
          r1 = dropWhile is_digit r;
          dot = (r1 \<noteq> [] \<and> hd r1 = CHR ''.'');
          fracpart = (if dot then takeWhile is_digit (tl r1) else []);
          r2 = (if dot then dropWhile is_digit (tl r1) else r1)
      in if intpart \<noteq> [] \<or> fracpart \<noteq> [] then
           (case parse_exponent r2 of
              None \<Rightarrow> Invalid
            | Some e \<Rightarrow> Parsed \<lparr>negative = neg, coefficient = int_of_str (intpart @ fracpart),
                                 exponent = e - int (length fracpart)\<rparr>)
         else if is_special r then Special
         else Invalid)"

section \<open>Construction of a notice (\<^verbatim>\<open>BidNotice.convert_to_decimal\<close>)\<close>





section \<open>State manager (\<^verbatim>\<open>bid_crawler/storage/state_manager.py\<close>)\<close>

text \<open>
  A path is the list of its components; its \<^verbatim>\<open>name\<close> is the last one, or the empty text
  when there is none. \<open>suffix\<close> and \<open>with_suffix\<close> are \<^verbatim>\<open>pathlib.PurePath.suffix\<close> and
  \<^verbatim>\<open>with_suffix\<close>: the suffix starts at the last dot of the name unless that dot is the
  first or the last character.
\<close>

type_synonym path = "string list"

definition name :: "path \<Rightarrow> string" where
  "name p = (if p = [] then [] else last p)"

definition rfind_dot :: "string \<Rightarrow> int" where
  "rfind_dot s =
     (if CHR ''.'' \<in> set s
      then int (length s) - 1 - int (length (takeWhile (\<lambda>c. c \<noteq> CHR ''.'') (rev s)))
      else - 1)"

definition suffix :: "string \<Rightarrow> string" where
  "suffix nm =
     (let i = rfind_dot nm
      in if 0 < i \<and> i < int (length nm) - 1 then drop (nat i) nm else [])"

definition with_suffix :: "path \<Rightarrow> string \<Rightarrow> error + path" where
  "with_suffix p sfx =
     (if CHR ''/'' \<in> set sfx then Inl (ValueError ''Invalid suffix'')
      else if (sfx \<noteq> [] \<and> hd sfx \<noteq> CHR ''.'') \<or> sfx = ''.''
        then Inl (ValueError ''Invalid suffix'')
      else if name p = [] then Inl (ValueError ''empty name'')
      else let old_suffix = suffix (name p);
               nm = (if old_suffix = [] then name p @ sfx
                     else take (length (name p) - length old_suffix) (name p) @ sfx)
           in Inr (butlast p @ [nm]))"

text \<open>
  The files the state manager reads and writes: \<open>files\<close> gives the text of each
  existing file, \<open>writable\<close> tells where a write succeeds. Directories are not part of
  the model (\<^verbatim>\<open>mkdir(parents=True, exist_ok=True)\<close> changes no file). A failing
  operation raises and leaves the files as they are.
\<close>

record filesystem =
  files :: "path \<rightharpoonup> string"
  writable :: "path \<Rightarrow> bool"

definition exists_file :: "filesystem \<Rightarrow> path \<Rightarrow> bool" where
  "exists_file fs p \<longleftrightarrow> files fs p \<noteq> None"

definition copy_file :: "filesystem \<Rightarrow> path \<Rightarrow> path \<Rightarrow> error + filesystem" where
  "copy_file fs src dst =
     (case files fs src of
        None \<Rightarrow> Inl (OtherException ''FileNotFoundError'')
      | Some t \<Rightarrow>
          if src = dst then Inl (OtherException ''SameFileError'')
          else if writable fs dst then Inr (fs\<lparr>files := (files fs)(dst \<mapsto> t)\<rparr>)
          else Inl (OtherException ''PermissionError''))"

definition write_file :: "filesystem \<Rightarrow> path \<Rightarrow> string \<Rightarrow> error + filesystem" where
  "write_file fs p t =
     (if writable fs p then Inr (fs\<lparr>files := (files fs)(p \<mapsto> t)\<rparr>)
      else Inl (OtherException ''PermissionError''))"

record StateManager =
  state_file :: path
  backup_file :: path
  state_opt :: "CrawlState option"

definition StateManager_init :: "path \<Rightarrow> error + StateManager" where
  "StateManager_init p =
     (case with_suffix p ''.backup.json'' of
        Inl e \<Rightarrow> Inl e
      | Inr b \<Rightarrow> Inr \<lparr>state_file = p, backup_file = b, state_opt = None\<rparr>)"

text \<open>
  \<^verbatim>\<open>StateManager.save\<close>. \<open>dump\<close> is the JSON text that \<^verbatim>\<open>model_dump\<close> and \<^verbatim>\<open>json.dump\<close>
  produce for a state. The whole body is inside \<^verbatim>\<open>try\<close>: any failure gives \<open>False\<close>.
\<close>

definition save ::
  "(CrawlState \<Rightarrow> string) \<Rightarrow> StateManager \<Rightarrow> filesystem \<Rightarrow> bool \<times> filesystem" where
  "save dump self fs =
     (case state_opt self of
        None \<Rightarrow> (False, fs)
      | Some st \<Rightarrow>
          (case (if exists_file fs (state_file self)
                 then copy_file fs (state_file self) (backup_file self) else Inr fs) of
             Inl e \<Rightarrow> (False, fs)
           | Inr fs1 \<Rightarrow>
               (case write_file fs1 (state_file self) (dump st) of
                  Inl e \<Rightarrow> (False, fs1)
                | Inr fs2 \<Rightarrow> (True, fs2))))"

text \<open>
  \<^verbatim>\<open>StateManager.load\<close>. \<open>parse\<close> is \<^verbatim>\<open>json.load\<close> followed by the construction of
  the models; it gives \<open>None\<close> when any of them raises. The method calls itself after
  copying the backup over the state file. The first argument is the number of nested
  calls the interpreter's recursion limit still allows: a call beyond it raises
  \<^verbatim>\<open>RecursionError\<close>, a subclass of \<^verbatim>\<open>Exception\<close>, which the \<^verbatim>\<open>except Exception as be\<close>
  of the calling level catches like any failure of the restore.
\<close>

fun load ::
  "nat \<Rightarrow> (string \<Rightarrow> CrawlState option) \<Rightarrow> StateManager \<Rightarrow> filesystem \<Rightarrow>
   (error + CrawlState option) \<times> filesystem" where
  "load 0 parse self fs = (Inl RecursionError, fs)"
| "load (Suc depth) parse self fs =
     (case files fs (state_file self) of
        None \<Rightarrow> (Inr None, fs)
      | Some text \<Rightarrow>
          (case parse text of
             Some st \<Rightarrow> (Inr (Some st), fs)
           | None \<Rightarrow>
               if exists_file fs (backup_file self) then
                 (case copy_file fs (backup_file self) (state_file self) of
                    Inl be \<Rightarrow> (Inr None, fs)
                  | Inr fs1 \<Rightarrow>
                      (case load depth parse self fs1 of
                         (Inl be, fs2) \<Rightarrow> (Inr None, fs2)
                       | (Inr r, fs2) \<Rightarrow> (Inr r, fs2)))
               else (Inr None, fs)))"

text \<open>A concrete state file and directory content, for evaluating the definitions.\<close>

definition sample_state_path :: path where
  "sample_state_path = [''data'', ''crawl_state.json'']"

definition sample_files :: filesystem where
  "sample_files =
     \<lparr>files = [sample_state_path \<mapsto> ''old state''], writable = (\<lambda>p. True)\<rparr>"

text \<open>A serialiser, a parser, a manager and damaged files, for evaluating the definitions.\<close>

definition sample_dump :: "CrawlState \<Rightarrow> string" where
  "sample_dump st = ''state of run '' @ run_id st"

definition sample_manager :: StateManager where
  "sample_manager =
     \<lparr>state_file = sample_state_path, backup_file = [''data'', ''crawl_state.backup.json''],
      state_opt = Some (new_CrawlState ''run1'' True ''2024-01-15T10:00:00'')\<rparr>"

definition sample_parse :: "string \<Rightarrow> CrawlState option" where
  "sample_parse t =
     (if t = ''state of run run0'' then Some (new_CrawlState ''run0'' True ''2024-01-14T10:00:00'')
      else None)"

definition corrupt_files :: filesystem where
  "corrupt_files =
     \<lparr>files = [sample_state_path \<mapsto> ''{ run_id: '',
               [''data'', ''crawl_state.backup.json''] \<mapsto> ''{ run''],
      writable = (\<lambda>p. True)\<rparr>"

section \<open>JSON storage (\<^verbatim>\<open>bid_crawler/storage/json_storage.py\<close>)\<close>

text \<open>
  A value inside the dictionary of an item: what \<^verbatim>\<open>model_dump()\<close> leaves there once
  \<^verbatim>\<open>_to_dict\<close> has turned every \<^verbatim>\<open>Decimal\<close> and \<^verbatim>\<open>datetime\<close> into text. The two enum
  fields keep their members. A dictionary is the list of its keys and values, in
  the order of the fields.
\<close>

datatype json =
    JNull
  | JBool bool
  | JStr string
  | JList "json list"
  | JBidType BidType
  | JBidStatus BidStatus

type_synonym item_dict = "(string \<times> json) list"

fun opt_str :: "string option \<Rightarrow> json" where
  "opt_str None = JNull"
| "opt_str (Some s) = JStr s"

text \<open>
  \<^verbatim>\<open>isinstance(value, Decimal)\<close> holds for every price that is not \<^verbatim>\<open>None\<close>, zero
  included: the value becomes \<^verbatim>\<open>str(value)\<close>.
\<close>

fun opt_decimal :: "Decimal option \<Rightarrow> json" where
  "opt_decimal None = JNull"
| "opt_decimal (Some d) = JStr (Decimal_str d)"

definition to_dict :: "BidNoticeDetail \<Rightarrow> item_dict" where
  "to_dict notice =
     [(''bid_notice_id'', JStr (bid_notice_id notice)),
      (''title'', JStr (title notice)),
      (''bid_type'', JBidType (bid_type notice)),
      (''status'', JBidStatus (status notice)),
      (''organization'', opt_str (organization notice)),
      (''demand_organization'', opt_str (demand_organization notice)),
      (''announce_date'', opt_str (announce_date notice)),
      (''deadline'', opt_str (deadline notice)),
      (''estimated_price'', opt_decimal (estimated_price notice)),
      (''base_price'', opt_decimal (base_price notice)),
      (''detail_url'', opt_str (detail_url notice)),
      (''crawled_at'', JStr (crawled_at notice)),
      (''bid_method'', opt_str (bid_method notice)),
      (''contract_method'', opt_str (contract_method notice)),
      (''qualification'', opt_str (qualification notice)),
      (''region'', opt_str (region notice)),
      (''delivery_location'', opt_str (delivery_location notice)),
      (''contact_department'', opt_str (contact_department notice)),
      (''contact_person'', opt_str (contact_person notice)),
      (''contact_phone'', opt_str (contact_phone notice)),
      (''contact_email'', opt_str (contact_email notice)),
      (''attachments'', JList (map JStr (attachments notice))),
      (''registration_no'', opt_str (registration_no notice)),
      (''reference_no'', opt_str (reference_no notice)),
      (''raw_html'', opt_str (raw_html notice)),
      (''detail_crawled_at'', opt_str (detail_crawled_at notice)),
      (''crawl_success'', JBool (crawl_success notice)),
      (''crawl_error'', opt_str (crawl_error notice))]"

text \<open>\<^verbatim>\<open>item.get("bid_notice_id")\<close>, and the truth value Python gives the result.\<close>

definition get_id :: "item_dict \<Rightarrow> json" where
  "get_id item = (case map_of item ''bid_notice_id'' of None \<Rightarrow> JNull | Some v \<Rightarrow> v)"


text \<open>
  The storage object. \<open>buffer\<close> and \<open>id_cache\<close> are \<^verbatim>\<open>_buffer\<close> and \<^verbatim>\<open>_id_cache\<close>;
  \<open>stored\<close> is the durable data as \<^verbatim>\<open>_load_raw()\<close> reads it: the array in the output
  file, or the contents of the files of the individual mode. A write to the disk
  either succeeds or raises and leaves the disk as it was; the argument \<open>io_ok\<close> of
  \<open>flush\<close> and \<open>save\<close> tells which.
\<close>

record JsonStorage =
  individual_files :: bool
  raise_on_duplicate :: bool
  buffer :: "item_dict list"
  id_cache :: "json set"
  stored :: "item_dict list"


definition exists :: "JsonStorage \<Rightarrow> string \<Rightarrow> bool" where
  "exists self bid_id \<longleftrightarrow> JStr bid_id \<in> id_cache self"












section \<open>Prices in JSON (\<^verbatim>\<open>BidNotice.serialize_decimal\<close>, \<^verbatim>\<open>JsonStorage._from_dict\<close>)\<close>

text \<open>
  The truth value of a \<^verbatim>\<open>Decimal\<close>: false exactly for a zero, whatever its sign and
  exponent.
\<close>

definition Decimal_bool :: "Decimal \<Rightarrow> bool" where
  "Decimal_bool d \<longleftrightarrow> coefficient d \<noteq> 0"

text \<open>
  The field serializer of the two prices, used by \<^verbatim>\<open>model_dump_json()\<close> and
  \<^verbatim>\<open>model_dump(mode='json')\<close>: \<^verbatim>\<open>str(v) if v else None\<close>. The result \<open>None\<close> is written
  as \<^verbatim>\<open>null\<close>.
\<close>

definition serialize_decimal :: "Decimal option \<Rightarrow> string option" where
  "serialize_decimal v =
     (case v of
        None \<Rightarrow> None
      | Some d \<Rightarrow> if Decimal_bool d then Some (Decimal_str d) else None)"

text \<open>
  What \<^verbatim>\<open>_from_dict\<close> makes of the value stored for a price: \<^verbatim>\<open>None\<close> stays,
  anything else goes through \<^verbatim>\<open>Decimal(str(value))\<close>, and a value that does not convert
  becomes \<^verbatim>\<open>None\<close>. A text for an infinity or a NaN converts and is then refused by the
  model. No text that \<^verbatim>\<open>str\<close> gives for a list, a boolean or an enum member converts.
\<close>

fun price_from_dict :: "json \<Rightarrow> error + Decimal option" where
  "price_from_dict JNull = Inr None"
| "price_from_dict (JStr t) =
     (case Decimal_of_str t of
        Parsed d \<Rightarrow> Inr (Some d)
      | Special \<Rightarrow> Inl ValidationError
      | Invalid \<Rightarrow> Inr None)"
| "price_from_dict _ = Inr None"

definition Decimal_zero :: Decimal where
  "Decimal_zero = \<lparr>negative = False, coefficient = 0, exponent = 0\<rparr>"

section \<open>Crawler (\<^verbatim>\<open>bid_crawler/crawler.py\<close>)\<close>


record BidNoticeList =
  items :: "BidNotice list"
  total_count :: int
  list_current_page :: int
  list_total_pages :: int
  has_next :: bool

record CrawlTask =
  notice :: BidNotice
  page_num :: int
  index :: int



text \<open>
  What the run meets outside the program. The \<open>n\<close>-th call of \<^verbatim>\<open>ListScraper.scrape\<close>
  has the outcome \<open>scrape_list n\<close>, the \<open>n\<close>-th call of \<^verbatim>\<open>go_to_next_page\<close> returns
  \<open>next_page n\<close>, the \<open>n\<close>-th call of \<^verbatim>\<open>DetailScraper.scrape_from_url\<close> has the outcome
  \<open>scrape_detail url notice n\<close>, the \<open>n\<close>-th \<^verbatim>\<open>page.go_back()\<close> raises \<open>go_back n\<close> if
  that is an exception. \<open>clock\<close> is the reading of \<^verbatim>\<open>datetime.now()\<close> (one reading for
  the run: the timestamps play no part), \<open>str_of\<close> is \<^verbatim>\<open>str(e)\<close>, \<open>dump_state\<close> and
  \<open>parse_state\<close> are the JSON writer and reader of the state file, \<open>recursion_limit\<close>
  the interpreter's, \<open>browser_start\<close> the exception, if any, that starting the browser
  and loading the list page raises.
\<close>

record environment =
  scrape_list :: "nat \<Rightarrow> error + BidNoticeList"
  next_page :: "nat \<Rightarrow> bool"
  scrape_detail :: "string \<Rightarrow> BidNotice \<Rightarrow> nat \<Rightarrow> error + BidNoticeDetail"
  go_back :: "nat \<Rightarrow> error option"
  clock :: datetime
  str_of :: "error \<Rightarrow> string"
  dump_state :: "CrawlState \<Rightarrow> string"
  parse_state :: "string \<Rightarrow> CrawlState option"
  recursion_limit :: nat
  browser_start :: "error option"

text \<open>
  Everything the run changes: the state manager and the files it writes, the
  repository, the calls made to the scrapers so far, and \<^verbatim>\<open>items_collected\<close>, the
  counter of \<^verbatim>\<open>_execute_crawl_pipeline\<close>. \<open>detail_calls\<close> lists the url and the id of
  the notice of every call of the detail scraper.
\<close>

record 'r world =
  manager :: StateManager
  disk :: filesystem
  repository :: 'r
  list_calls :: nat
  next_calls :: nat
  detail_calls :: "(string \<times> string) list"
  back_calls :: nat
  items_collected :: int

text \<open>
  The methods of \<^verbatim>\<open>StateManager\<close> that work on its state. \<open>the_state\<close> is the property
  \<^verbatim>\<open>state\<close>, which creates a state when there is none (its \<^verbatim>\<open>run_id\<close> is a time stamp);
  \<open>on_state\<close> applies a method of \<^verbatim>\<open>CrawlState\<close> to it. They carry the prefix \<open>sm_\<close>,
  the names without it being those of \<^verbatim>\<open>CrawlState\<close>. \<^verbatim>\<open>complete_page\<close> and
  \<^verbatim>\<open>mark_completed\<close> save the state file.
\<close>

definition the_state :: "datetime \<Rightarrow> StateManager \<Rightarrow> CrawlState" where
  "the_state t self =
     (case state_opt self of None \<Rightarrow> new_CrawlState t False t | Some s \<Rightarrow> s)"

definition on_state ::
  "datetime \<Rightarrow> (CrawlState \<Rightarrow> CrawlState) \<Rightarrow> StateManager \<Rightarrow> StateManager" where
  "on_state t f self = self\<lparr>state_opt := Some (f (the_state t self))\<rparr>"






definition sm_save :: "environment \<Rightarrow> 'r world \<Rightarrow> 'r world" where
  "sm_save env w = w\<lparr>disk := snd (save (dump_state env) (manager w) (disk w))\<rparr>"

definition sm_complete_page :: "environment \<Rightarrow> int \<Rightarrow> 'r world \<Rightarrow> 'r world" where
  "sm_complete_page env page w =
     sm_save env
       (w\<lparr>manager := on_state (clock env) (complete_page (clock env) page) (manager w)\<rparr>)"

definition sm_mark_completed :: "environment \<Rightarrow> 'r world \<Rightarrow> 'r world" where
  "sm_mark_completed env w =
     sm_save env
       (w\<lparr>manager := on_state (clock env) (mark_completed (clock env)) (manager w)\<rparr>)"

text \<open>
  \<^verbatim>\<open>StateManager.initialize\<close>: an unfinished state that loads is resumed under the new
  run id, anything else gives a fresh state.
\<close>

definition sm_initialize :: "environment \<Rightarrow> string \<Rightarrow> bool \<Rightarrow> 'r world \<Rightarrow> (error + unit) \<times> 'r world" where
  "sm_initialize env rid resume w =
     (let fresh = w\<lparr>manager := (manager w)\<lparr>state_opt := Some (new_CrawlState rid True (clock env))\<rparr>\<rparr>
      in if resume \<and> exists_file (disk w) (state_file (manager w)) then
           (case load (recursion_limit env) (parse_state env) (manager w) (disk w) of
              (Inl e, d) \<Rightarrow> (Inl e, w\<lparr>disk := d\<rparr>)
            | (Inr None, d) \<Rightarrow> (Inr (), fresh\<lparr>disk := d\<rparr>)
            | (Inr (Some loaded), d) \<Rightarrow>
                if \<not> is_completed loaded
                then (Inr (), w\<lparr>disk := d,
                        manager := (manager w)\<lparr>state_opt :=
                          Some (loaded\<lparr>is_running := True, run_id := rid\<rparr>)\<rparr>\<rparr>)
                else (Inr (), fresh\<lparr>disk := d\<rparr>))
         else (Inr (), fresh))"

text \<open>
  The two operations the crawler hands to \<open>retry_async\<close>, each counting its calls, and
  the callback \<^verbatim>\<open>lambda a, e: self.state_manager.record_retry()\<close>.
\<close>

definition list_scrape_op :: "environment \<Rightarrow> 'r world \<Rightarrow> (error + BidNoticeList) \<times> 'r world" where
  "list_scrape_op env w = (scrape_list env (list_calls w), w\<lparr>list_calls := Suc (list_calls w)\<rparr>)"











section \<open>Theorems\<close>

subsection \<open>Status transitions\<close>

lemma transition_to_allowed_iff:
  "(case valid_transitions s of None \<Rightarrow> False | Some l \<Rightarrow> t \<in> set l)
     \<longleftrightarrow> (s, t) \<in> spec_transition_table"
  by (cases s; cases t) (simp_all add: spec_transition_table_def)

text \<open>
  C6. For every notice \<open>b\<close> and status \<open>s\<close>, \<open>transition_to b s\<close> raises exactly when
  the pair \<open>(status b, s)\<close> is outside the table of the specification, and what it then
  raises is \<^verbatim>\<open>InvalidBidDataException\<close>; when the pair is in the table the result is a
  notice equal to \<open>b\<close> in every field except \<open>status\<close>, which is \<open>s\<close>. The method is a
  function of the value \<open>b\<close>, which it does not update.
\<close>

theorem transition_to_table:
  "((\<exists>e. transition_to b s = Inl e) \<longleftrightarrow> (status b, s) \<notin> spec_transition_table)
   \<and> ((status b, s) \<notin> spec_transition_table \<longrightarrow>
        transition_to b s = Inl (InvalidBidDataException ''status''))
   \<and> ((status b, s) \<in> spec_transition_table \<longrightarrow>
        transition_to b s = Inr (b\<lparr>status := s\<rparr>)
        \<and> (\<forall>b'. transition_to b s = Inr b' \<longrightarrow>
              status b' = s \<and> b'\<lparr>status := status b\<rparr> = b))"
proof (cases "(status b, s) \<in> spec_transition_table")
  case True
  then have "s \<in> set (case valid_transitions (status b) of None \<Rightarrow> [] | Some l \<Rightarrow> l)"
    using transition_to_allowed_iff [where s = "status b" and t = s]
    by (cases "valid_transitions (status b)") simp_all
  then have "transition_to b s = Inr (b\<lparr>status := s\<rparr>)"
    by (simp add: transition_to_def)
  with True show ?thesis by simp
next
  case False
  then have "s \<notin> set (case valid_transitions (status b) of None \<Rightarrow> [] | Some l \<Rightarrow> l)"
    using transition_to_allowed_iff [where s = "status b" and t = s]
    by (cases "valid_transitions (status b)") simp_all
  then have "transition_to b s = Inl (InvalidBidDataException ''status'')"
    by (simp add: transition_to_def)
  with False show ?thesis by simp
qed

theorem transition_to_table_witness:
  "transition_to sample_notice CLOSED = Inr (sample_notice\<lparr>status := CLOSED\<rparr>)
   \<and> transition_to sample_notice REBID = Inl (InvalidBidDataException ''status'')
   \<and> transition_to (sample_notice\<lparr>status := CLOSED\<rparr>) OPEN
       = Inl (InvalidBidDataException ''status'')"
  using transition_to_table [of sample_notice CLOSED]
    transition_to_table [of sample_notice REBID]
    transition_to_table [of "sample_notice\<lparr>status := CLOSED\<rparr>" OPEN]
  by (simp add: spec_transition_table_def sample_notice_def)

subsection \<open>Crawl state: the counter and the id set\<close>

lemma count_inv_new: "count_inv (new_CrawlState rid running now)"
  by (simp add: count_inv_def new_CrawlState_def new_CrawlStatistics_def)

lemma count_inv_step: "count_inv s \<Longrightarrow> count_inv (apply_crawl_op c s)"
proof (cases c)
  case (Pair now op)
  assume inv: "count_inv s"
  show ?thesis
  proof (cases op)
    case (MarkCollected i)
    with Pair inv show ?thesis
      by (simp add: count_inv_def mark_collected_def)
  next
    case (RecordError e d)
    with Pair inv show ?thesis
      by (simp add: count_inv_def record_error_def Let_def split: option.split)
  next
    case RecordRetry
    with Pair inv show ?thesis by (simp add: count_inv_def record_retry_def)
  next
    case (UpdateProgress p i t)
    with Pair inv show ?thesis by (simp add: count_inv_def update_progress_def Let_def)
  next
    case (CompletePage p)
    with Pair inv show ?thesis by (simp add: count_inv_def complete_page_def)
  next
    case MarkCompleted
    with Pair inv show ?thesis by (simp add: count_inv_def mark_completed_def)
  qed
qed

lemma count_inv_run: "count_inv s \<Longrightarrow> count_inv (run_crawl_ops cs s)"
  by (induction cs arbitrary: s) (simp_all add: count_inv_step)

text \<open>
  C2. Start from a freshly created \<open>CrawlState\<close> and apply any sequence of calls of
  \<open>mark_collected\<close>, \<open>record_error\<close>, \<open>record_retry\<close>, \<open>update_progress\<close>,
  \<open>complete_page\<close> and \<open>mark_completed\<close>. After every step (every prefix \<open>cs\<close> of the
  sequence is itself a sequence) \<open>total_collected\<close> is the number of elements of
  \<open>collected_ids\<close>. In the state reached, \<open>mark_collected\<close> on an id that is already
  collected returns \<open>False\<close>, adds one to \<open>skipped_duplicates\<close> and leaves
  \<open>collected_ids\<close> and \<open>total_collected\<close> as they are.
\<close>

theorem total_collected_is_card:
  "(let s = run_crawl_ops cs (new_CrawlState rid running t0) in
      finite (collected_ids s)
      \<and> total_collected (statistics s) = int (card (collected_ids s))
      \<and> (i \<in> collected_ids s \<longrightarrow>
           fst (mark_collected now i s) = False
           \<and> skipped_duplicates (statistics (snd (mark_collected now i s)))
               = skipped_duplicates (statistics s) + 1
           \<and> collected_ids (snd (mark_collected now i s)) = collected_ids s
           \<and> total_collected (statistics (snd (mark_collected now i s)))
               = total_collected (statistics s)))"
proof -
  have "count_inv (run_crawl_ops cs (new_CrawlState rid running t0))"
    by (rule count_inv_run) (rule count_inv_new)
  then show ?thesis
    by (simp add: Let_def count_inv_def mark_collected_def)
qed

theorem total_collected_is_card_witness:
  "(let s = run_crawl_ops
        [(''t1'', MarkCollected ''A''), (''t2'', RecordRetry), (''t3'', MarkCollected ''B''),
         (''t4'', MarkCollected ''A''), (''t5'', CompletePage 1)]
        (new_CrawlState ''run'' True ''t0'') in
      collected_ids s = {''A'', ''B''}
      \<and> total_collected (statistics s) = 2
      \<and> skipped_duplicates (statistics s) = 1
      \<and> ''A'' \<in> collected_ids s
      \<and> fst (mark_collected ''t6'' ''A'' s) = False
      \<and> skipped_duplicates (statistics (snd (mark_collected ''t6'' ''A'' s))) = 2
      \<and> total_collected (statistics (snd (mark_collected ''t6'' ''A'' s))) = 2)"
  using total_collected_is_card
    [of "[(''t1'', MarkCollected ''A''), (''t2'', RecordRetry), (''t3'', MarkCollected ''B''),
          (''t4'', MarkCollected ''A''), (''t5'', CompletePage 1)]"
        "''run''" True "''t0''" "''A''" "''t6''"]
  by (simp add: Let_def new_CrawlState_def new_CrawlStatistics_def new_CrawlProgress_def
      mark_collected_def record_retry_def complete_page_def insert_commute)

subsection \<open>Retry: number of invocations\<close>





subsection \<open>Construction of a notice\<close>




subsection \<open>State manager: the backup path and \<open>save\<close>\<close>

lemma rfind_dot_split:
  assumes "CHR ''.'' \<in> set s"
  shows "\<exists>stem ext. s = stem @ CHR ''.'' # ext \<and> CHR ''.'' \<notin> set ext
           \<and> rfind_dot s = int (length stem)"
proof -
  let ?P = "\<lambda>c. c \<noteq> CHR ''.''"
  let ?tw = "takeWhile ?P (rev s)"
  let ?dw = "dropWhile ?P (rev s)"
  from assms have "?dw \<noteq> []" by (simp add: dropWhile_eq_Nil_conv)
  moreover have "\<not> ?P (hd ?dw)" using \<open>?dw \<noteq> []\<close> hd_dropWhile by blast
  ultimately obtain rest where dw: "?dw = CHR ''.'' # rest" by (cases ?dw) auto
  have "rev s = ?tw @ ?dw" by simp
  then have "s = rev ?dw @ rev ?tw" by (metis rev_append rev_rev_ident)
  then have s: "s = rev rest @ CHR ''.'' # rev ?tw" using dw by simp
  have nodot: "CHR ''.'' \<notin> set (rev ?tw)" using set_takeWhileD by fastforce
  have "length s = length rest + 1 + length ?tw" by (subst s) simp
  then have "rfind_dot s = int (length (rev rest))"
    using assms by (simp add: rfind_dot_def)
  with s nodot show ?thesis by blast
qed

lemma suffix_shape:
  assumes "suffix nm \<noteq> []"
  shows "\<exists>stem ext. nm = stem @ CHR ''.'' # ext \<and> suffix nm = CHR ''.'' # ext
           \<and> CHR ''.'' \<notin> set ext \<and> length nm - length (suffix nm) = length stem"
proof -
  from assms have dot: "CHR ''.'' \<in> set nm"
    by (auto simp: suffix_def rfind_dot_def Let_def split: if_splits)
  from rfind_dot_split [OF dot] obtain stem ext where
    nm: "nm = stem @ CHR ''.'' # ext" and nodot: "CHR ''.'' \<notin> set ext"
    and i: "rfind_dot nm = int (length stem)" by blast
  from assms i have "suffix nm = drop (length stem) nm"
    by (auto simp: suffix_def Let_def split: if_splits)
  then have "suffix nm = CHR ''.'' # ext" by (subst (asm) nm) simp
  moreover have "length nm - length (CHR ''.'' # ext) = length stem" by (subst nm) simp
  ultimately show ?thesis using nm nodot by auto
qed

lemma with_suffix_backup:
  assumes "name p \<noteq> []"
  shows "\<exists>stem. with_suffix p ''.backup.json'' = Inr (butlast p @ [stem @ ''.backup.json''])
           \<and> stem = take (length (name p) - length (suffix (name p))) (name p)
           \<and> stem @ ''.backup.json'' \<noteq> name p @ ''.backup''
           \<and> stem @ ''.backup.json'' \<noteq> name p"
proof (cases "suffix (name p) = []")
  case True
  with assms show ?thesis by (simp add: with_suffix_def Let_def)
next
  case False
  from suffix_shape [OF False] obtain stem ext where
    nm: "name p = stem @ CHR ''.'' # ext" and sfx: "suffix (name p) = CHR ''.'' # ext"
    and nodot: "CHR ''.'' \<notin> set ext"
    and len: "length (name p) - length (suffix (name p)) = length stem" by blast
  have tk: "take (length (name p) - length (suffix (name p))) (name p) = stem"
    unfolding len by (subst nm) simp
  have ws: "with_suffix p ''.backup.json'' = Inr (butlast p @ [stem @ ''.backup.json''])"
    using assms False tk by (simp add: with_suffix_def Let_def)
  have ne1: "stem @ ''.backup.json'' \<noteq> name p @ ''.backup''"
  proof
    assume "stem @ ''.backup.json'' = name p @ ''.backup''"
    then have eq: "''.backup.json'' = (CHR ''.'' # ext) @ ''.backup''" by (subst (asm) nm) simp
    then have "length ''.backup.json'' = length ((CHR ''.'' # ext) @ ''.backup'')" by (rule arg_cong)
    then have "length ext = 4" by simp
    then obtain a b c d where "ext = [a, b, c, d]"
      by (cases ext; simp; rename_tac x xs; case_tac xs; simp; rename_tac y ys; case_tac ys; simp;
          rename_tac z zs; case_tac zs; simp)
    with eq show False by simp
  qed
  have ne2: "stem @ ''.backup.json'' \<noteq> name p"
  proof
    assume "stem @ ''.backup.json'' = name p"
    then have "ext = ''backup.json''" by (subst (asm) nm) simp
    with nodot show False by simp
  qed
  from ws tk ne1 ne2 show ?thesis by blast
qed

lemma name_snoc: "name (xs @ [n]) = n"
  by (simp add: name_def)

lemma butlast_name: "p \<noteq> [] \<Longrightarrow> butlast p @ [name p] = p"
  by (simp add: name_def)

lemma StateManager_init_backup:
  assumes "StateManager_init p = Inr sm"
  shows "state_file sm = p"
    and "backup_file sm = butlast p @
           [take (length (name p) - length (suffix (name p))) (name p) @ ''.backup.json'']"
    and "backup_file sm \<noteq> butlast p @ [name p @ ''.backup'']"
    and "backup_file sm \<noteq> p"
proof -
  from assms have nm: "name p \<noteq> []"
    by (auto simp: StateManager_init_def with_suffix_def split: if_splits sum.splits)
  then have pne: "p \<noteq> []" by (auto simp: name_def)
  from with_suffix_backup [OF nm] obtain stem where
    ws: "with_suffix p ''.backup.json'' = Inr (butlast p @ [stem @ ''.backup.json''])"
    and stem: "stem = take (length (name p) - length (suffix (name p))) (name p)"
    and ne1: "stem @ ''.backup.json'' \<noteq> name p @ ''.backup''"
    and ne2: "stem @ ''.backup.json'' \<noteq> name p" by blast
  from assms ws have sm: "sm = \<lparr>state_file = p, backup_file = butlast p @ [stem @ ''.backup.json''],
      state_opt = None\<rparr>"
    by (simp add: StateManager_init_def)
  show "state_file sm = p" by (simp add: sm)
  show "backup_file sm = butlast p @
           [take (length (name p) - length (suffix (name p))) (name p) @ ''.backup.json'']"
    by (simp add: sm stem)
  show "backup_file sm \<noteq> butlast p @ [name p @ ''.backup'']"
    using ne1 by (simp add: sm)
  show "backup_file sm \<noteq> p"
  proof
    assume "backup_file sm = p"
    then have "butlast p @ [stem @ ''.backup.json''] = butlast p @ [name p]"
      using butlast_name [OF pne] by (simp add: sm)
    with ne2 show False by simp
  qed
qed

lemma save_copies_then_writes:
  assumes "state_opt sm = Some st" and "files fs (state_file sm) = Some old"
    and "backup_file sm \<noteq> state_file sm"
    and "writable fs (backup_file sm)" and "writable fs (state_file sm)"
  shows "\<exists>fs'. save dump sm fs = (True, fs') \<and> files fs' (backup_file sm) = Some old
           \<and> files fs' (state_file sm) = Some (dump st)"
  using assms
  by (auto simp: save_def exists_file_def copy_file_def write_file_def)

lemma save_copy_fails:
  assumes "state_opt sm = Some st" and "files fs (state_file sm) = Some old"
    and "\<not> writable fs (backup_file sm)"
  shows "save dump sm fs = (False, fs)"
  using assms
  by (auto simp: save_def exists_file_def copy_file_def)

text \<open>
  C9 as stated fails. For the state file \<^verbatim>\<open>data/crawl_state.json\<close> the sidecar is
  \<^verbatim>\<open>data/crawl_state.backup.json\<close>: after \<open>save\<close> the prior contents are there, and
  there is no file \<^verbatim>\<open>data/crawl_state.json.backup\<close>.
\<close>

theorem backup_file_is_not_state_file_dot_backup:
  "StateManager_init sample_state_path
     = Inr \<lparr>state_file = [''data'', ''crawl_state.json''],
            backup_file = [''data'', ''crawl_state.backup.json''], state_opt = None\<rparr>
   \<and> fst (save sample_dump sample_manager sample_files) = True
   \<and> files (snd (save sample_dump sample_manager sample_files))
        [''data'', ''crawl_state.json.backup''] = None
   \<and> files (snd (save sample_dump sample_manager sample_files))
        [''data'', ''crawl_state.backup.json''] = Some ''old state''
   \<and> files (snd (save sample_dump sample_manager sample_files))
        [''data'', ''crawl_state.json''] = Some ''state of run run1''"
  by (simp add: StateManager_init_def with_suffix_def name_def suffix_def rfind_dot_def
      sample_state_path_def save_def sample_manager_def sample_files_def exists_file_def
      copy_file_def write_file_def sample_dump_def new_CrawlState_def Let_def)

text \<open>
  C9, amended. The sidecar path is \<^verbatim>\<open>state_file.with_suffix(".backup.json")\<close>: the
  name of the state file with its last suffix replaced by \<^verbatim>\<open>.backup.json\<close>, which is
  never the name with \<^verbatim>\<open>.backup\<close> appended. When \<open>save\<close> runs while a state file
  exists, the prior contents are first copied to that path and only then the new state
  is written to the state file: afterwards the sidecar holds the prior contents and the
  state file the new ones, and when the copy fails nothing is written and \<open>save\<close>
  returns \<open>False\<close>.
\<close>

theorem save_backs_up_to_backup_json:
  "StateManager_init p = Inr sm \<Longrightarrow>
     state_file sm = p
   \<and> backup_file sm = butlast p @
       [take (length (name p) - length (suffix (name p))) (name p) @ ''.backup.json'']
   \<and> backup_file sm \<noteq> butlast p @ [name p @ ''.backup'']
   \<and> (\<forall>st fs old. files fs p = Some old \<and> writable fs (backup_file sm) \<and> writable fs p \<longrightarrow>
         (\<exists>fs'. save dump (sm\<lparr>state_opt := Some st\<rparr>) fs = (True, fs')
               \<and> files fs' (backup_file sm) = Some old
               \<and> files fs' p = Some (dump st)))
   \<and> (\<forall>st fs old. files fs p = Some old \<and> \<not> writable fs (backup_file sm) \<longrightarrow>
         save dump (sm\<lparr>state_opt := Some st\<rparr>) fs = (False, fs))"
proof -
  assume init: "StateManager_init p = Inr sm"
  note b = StateManager_init_backup [OF init]
  have copy: "\<And>st fs old. files fs p = Some old \<Longrightarrow> writable fs (backup_file sm) \<Longrightarrow>
      writable fs p \<Longrightarrow>
      \<exists>fs'. save dump (sm\<lparr>state_opt := Some st\<rparr>) fs = (True, fs')
               \<and> files fs' (backup_file sm) = Some old \<and> files fs' p = Some (dump st)"
    using save_copies_then_writes [of "sm\<lparr>state_opt := Some st\<rparr>" for st] b(1) b(4)
    by simp
  have nocopy: "\<And>st fs old. files fs p = Some old \<Longrightarrow> \<not> writable fs (backup_file sm) \<Longrightarrow>
      save dump (sm\<lparr>state_opt := Some st\<rparr>) fs = (False, fs)"
    using save_copy_fails [of "sm\<lparr>state_opt := Some st\<rparr>" for st] b(1)
    by simp
  from b(1) b(2) b(3) copy nocopy show ?thesis by blast
qed

theorem save_backs_up_to_backup_json_witness:
  "StateManager_init sample_state_path
     = Inr \<lparr>state_file = sample_state_path,
            backup_file = [''data'', ''crawl_state.backup.json''], state_opt = None\<rparr>
   \<and> (\<exists>fs'. save sample_dump sample_manager sample_files = (True, fs')
          \<and> files fs' [''data'', ''crawl_state.backup.json''] = Some ''old state''
          \<and> files fs' sample_state_path = Some ''state of run run1'')"
proof -
  have init: "StateManager_init sample_state_path
     = Inr \<lparr>state_file = sample_state_path,
            backup_file = [''data'', ''crawl_state.backup.json''], state_opt = None\<rparr>"
    by (simp add: StateManager_init_def with_suffix_def name_def suffix_def rfind_dot_def
        sample_state_path_def Let_def)
  have sm: "\<lparr>state_file = sample_state_path,
            backup_file = [''data'', ''crawl_state.backup.json''], state_opt = None\<rparr>
          \<lparr>state_opt := Some (new_CrawlState ''run1'' True ''2024-01-15T10:00:00'')\<rparr>
        = sample_manager"
    by (simp add: sample_manager_def)
  have old: "files sample_files sample_state_path = Some ''old state''"
    by (simp add: sample_files_def)
  from save_backs_up_to_backup_json [OF init, of sample_dump,
      THEN conjunct2, THEN conjunct2, THEN conjunct2, THEN conjunct1, rule_format,
      of sample_files "''old state''" "new_CrawlState ''run1'' True ''2024-01-15T10:00:00''"]
    old sm
  have "\<exists>fs'. save sample_dump sample_manager sample_files = (True, fs')
          \<and> files fs' [''data'', ''crawl_state.backup.json''] = Some ''old state''
          \<and> files fs' sample_state_path = Some ''state of run run1''"
    by (simp add: sample_files_def sample_dump_def new_CrawlState_def)
  with init show ?thesis by simp
qed

subsection \<open>State manager: \<open>load\<close>\<close>

lemma load_returns:
  "0 < depth \<Longrightarrow> \<exists>r fs'. load depth parse sm fs = (Inr r, fs')"
  by (cases depth) (auto split: option.splits sum.splits prod.splits)

lemma load_both_fail:
  "files fs (state_file sm) = Some t \<Longrightarrow> parse t = None \<Longrightarrow>
   files fs (backup_file sm) = Some b \<Longrightarrow> parse b = None \<Longrightarrow>
   fst (load (Suc d) parse sm fs) = Inr None"
proof (induction d arbitrary: fs t)
  case 0
  then show ?case
    by (auto simp: exists_file_def split: sum.splits)
next
  case (Suc d)
  show ?case
  proof (cases "copy_file fs (backup_file sm) (state_file sm)")
    case (Inl e)
    with Suc.prems show ?thesis by (simp add: exists_file_def)
  next
    case (Inr fs1)
    with Suc.prems have ne: "backup_file sm \<noteq> state_file sm"
      and fs1: "fs1 = fs\<lparr>files := (files fs)(state_file sm \<mapsto> b)\<rparr>"
      by (auto simp: copy_file_def split: if_splits)
    have "fst (load (Suc d) parse sm fs1) = Inr None"
      by (rule Suc.IH [of fs1 b]) (use Suc.prems ne fs1 in auto)
    then obtain fs2 where "load (Suc d) parse sm fs1 = (Inr None, fs2)"
      by (cases "load (Suc d) parse sm fs1") auto
    with Suc.prems Inr show ?thesis
      by (simp add: exists_file_def)
  qed
qed

lemma load_backup_parses:
  assumes "files fs (state_file sm) = Some t" "parse t = None"
    and "files fs (backup_file sm) = Some b" "parse b = Some st"
    and "backup_file sm \<noteq> state_file sm" "writable fs (state_file sm)"
  shows "load (Suc (Suc d)) parse sm fs
           = (Inr (Some st), fs\<lparr>files := (files fs)(state_file sm \<mapsto> b)\<rparr>)"
  using assms by (simp add: exists_file_def copy_file_def)

text \<open>
  C7. Whatever the files hold, \<open>load\<close> returns and raises nothing (for every recursion
  limit that admits the call itself). If there is no state file it returns \<open>None\<close>; if
  the state file parses it returns that state; if it does not parse and a backup
  exists, the backup is copied over the state file and loaded again, which gives the
  state of the backup when that parses; if neither parses, or there is no backup, the
  result is \<open>None\<close>. When neither file parses every nested call copies the backup and
  calls \<open>load\<close> again: the nesting ends at the recursion limit of the interpreter,
  whose \<^verbatim>\<open>RecursionError\<close> the handler one level up catches and turns into \<open>None\<close>.
\<close>

theorem load_falls_back_to_backup:
  "0 < depth \<Longrightarrow>
     (\<exists>r fs'. load depth parse sm fs = (Inr r, fs'))
   \<and> (files fs (state_file sm) = None \<longrightarrow> load depth parse sm fs = (Inr None, fs))
   \<and> (\<forall>t st. files fs (state_file sm) = Some t \<and> parse t = Some st \<longrightarrow>
         load depth parse sm fs = (Inr (Some st), fs))
   \<and> (\<forall>t b st. files fs (state_file sm) = Some t \<and> parse t = None
         \<and> files fs (backup_file sm) = Some b \<and> parse b = Some st
         \<and> backup_file sm \<noteq> state_file sm \<and> writable fs (state_file sm) \<and> 1 < depth \<longrightarrow>
         load depth parse sm fs
           = (Inr (Some st), fs\<lparr>files := (files fs)(state_file sm \<mapsto> b)\<rparr>))
   \<and> (\<forall>t b. files fs (state_file sm) = Some t \<and> parse t = None
         \<and> files fs (backup_file sm) = Some b \<and> parse b = None \<longrightarrow>
         fst (load depth parse sm fs) = Inr None)
   \<and> (\<forall>t. files fs (state_file sm) = Some t \<and> parse t = None
         \<and> files fs (backup_file sm) = None \<longrightarrow>
         load depth parse sm fs = (Inr None, fs))"
proof -
  assume pos: "0 < depth"
  then obtain d where d: "depth = Suc d" by (cases depth) auto
  have 1: "\<exists>r fs'. load depth parse sm fs = (Inr r, fs')"
    using pos by (rule load_returns)
  have 2: "files fs (state_file sm) = None \<longrightarrow> load depth parse sm fs = (Inr None, fs)"
    by (simp add: d)
  have 3: "\<forall>t st. files fs (state_file sm) = Some t \<and> parse t = Some st \<longrightarrow>
         load depth parse sm fs = (Inr (Some st), fs)"
    by (simp add: d)
  have 4: "\<forall>t b st. files fs (state_file sm) = Some t \<and> parse t = None
         \<and> files fs (backup_file sm) = Some b \<and> parse b = Some st
         \<and> backup_file sm \<noteq> state_file sm \<and> writable fs (state_file sm) \<and> 1 < depth \<longrightarrow>
         load depth parse sm fs
           = (Inr (Some st), fs\<lparr>files := (files fs)(state_file sm \<mapsto> b)\<rparr>)"
  proof (intro allI impI)
    fix t b st
    assume h: "files fs (state_file sm) = Some t \<and> parse t = None
         \<and> files fs (backup_file sm) = Some b \<and> parse b = Some st
         \<and> backup_file sm \<noteq> state_file sm \<and> writable fs (state_file sm) \<and> 1 < depth"
    then obtain d2 where "depth = Suc (Suc d2)"
      by (cases depth; simp; rename_tac n; case_tac n; simp)
    with h load_backup_parses [of fs sm t parse b st d2]
    show "load depth parse sm fs
           = (Inr (Some st), fs\<lparr>files := (files fs)(state_file sm \<mapsto> b)\<rparr>)"
      by simp
  qed
  have 5: "\<forall>t b. files fs (state_file sm) = Some t \<and> parse t = None
         \<and> files fs (backup_file sm) = Some b \<and> parse b = None \<longrightarrow>
         fst (load depth parse sm fs) = Inr None"
    using load_both_fail [of fs sm _ parse _ d] by (auto simp: d)
  have 6: "\<forall>t. files fs (state_file sm) = Some t \<and> parse t = None
         \<and> files fs (backup_file sm) = None \<longrightarrow>
         load depth parse sm fs = (Inr None, fs)"
    by (simp add: d exists_file_def)
  from 1 2 3 4 5 6 show ?thesis by blast
qed

theorem load_falls_back_to_backup_witness:
  "(0::nat) < 3
   \<and> fst (load 3 sample_parse sample_manager corrupt_files) = Inr None
   \<and> fst (load 3 sample_parse sample_manager
        (corrupt_files\<lparr>files := (files corrupt_files)
            ([''data'', ''crawl_state.backup.json''] \<mapsto> ''state of run run0'')\<rparr>))
      = Inr (Some (new_CrawlState ''run0'' True ''2024-01-14T10:00:00''))"
proof -
  have pos: "(0::nat) < 3" by simp
  have a: "fst (load 3 sample_parse sample_manager corrupt_files) = Inr None"
    using load_falls_back_to_backup [OF pos, of sample_parse sample_manager corrupt_files]
    by (simp add: sample_manager_def corrupt_files_def sample_parse_def sample_state_path_def)
  have b: "fst (load 3 sample_parse sample_manager
        (corrupt_files\<lparr>files := (files corrupt_files)
            ([''data'', ''crawl_state.backup.json''] \<mapsto> ''state of run run0'')\<rparr>))
      = Inr (Some (new_CrawlState ''run0'' True ''2024-01-14T10:00:00''))"
    using load_falls_back_to_backup [OF pos, of sample_parse sample_manager
        "corrupt_files\<lparr>files := (files corrupt_files)
            ([''data'', ''crawl_state.backup.json''] \<mapsto> ''state of run run0'')\<rparr>"]
    by (simp add: sample_manager_def corrupt_files_def sample_parse_def sample_state_path_def)
  from pos a b show ?thesis by simp
qed

subsection \<open>JSON storage: \<open>save\<close> and \<open>exists\<close>\<close>

lemma get_id_to_dict [simp]: "get_id (to_dict n) = JStr (bid_notice_id n)"
  by (simp add: get_id_def to_dict_def)
















subsection \<open>Prices in JSON\<close>

text \<open>
  C4 at the price \<^verbatim>\<open>Decimal("0")\<close>. The serializer of the model gives \<open>None\<close>, which
  the JSON text shows as \<^verbatim>\<open>null\<close>: the value is present and is not written as a text,
  and reading it back gives no price. The storage writes the same price as the text
  \<^verbatim>\<open>"0"\<close>, which reads back as the price.
\<close>

theorem serialize_decimal_zero_is_null:
  "serialize_decimal (Some Decimal_zero) = None
   \<and> opt_decimal (Some Decimal_zero) = JStr ''0''
   \<and> price_from_dict (opt_decimal (Some Decimal_zero)) = Inr (Some Decimal_zero)
   \<and> price_from_dict (opt_str (serialize_decimal (Some Decimal_zero))) = Inr None"
proof -
  have str0: "Decimal_str Decimal_zero = ''0''"
    by (simp add: Decimal_str_def Decimal_zero_def digit_chars_def)
  have parse0: "Decimal_of_str ''0'' = Parsed Decimal_zero"
    by (simp add: Decimal_of_str_def strip_def is_space_def is_digit_def digit_chars_def
        parse_exponent_def int_of_str_def digit_val_def Decimal_zero_def)
  have null: "serialize_decimal (Some Decimal_zero) = None"
    by (simp add: serialize_decimal_def Decimal_bool_def Decimal_zero_def)
  from str0 parse0 null show ?thesis by simp
qed

subsection \<open>Item processor: a notice without a detail URL\<close>




end
